theory Spec2Isabelle
  imports Complex_Main
begin

section \<open>Data model of \<open>train.py\<close>\<close>

text \<open>
  The command line of \<open>parse_args\<close>. An option that argparse leaves at \<open>None\<close> is
  \<open>None\<close> here; Python's unbounded integers are \<open>int\<close>. \<open>--gpus\<close> has
  \<open>nargs='+'\<close>, so argparse itself only ever delivers \<open>None\<close> or a non-empty list;
  the model of \<open>main\<close> accepts any list.
\<close>

datatype backend = Mpi | Nccl | Gloo

record args =
  config :: string
  distributed_backend :: "backend option"
  gpus :: "int list option"
  ranks_per_node :: int
  gpus_per_rank :: "int option"
  resume :: bool
  verbose :: bool

text \<open>The exceptions that \<open>main\<close> itself can raise, and those of its collaborators.\<close>

datatype error =
    KeyError string
  | TypeError
  | ZeroDivisionError
  | Collaborator string

section \<open>Choosing the GPUs (lines 78 to 89 of \<open>main\<close>)\<close>

text \<open>Python's \<open>range(n)\<close> for an integer \<open>n\<close>: empty when \<open>n \<le> 0\<close>.\<close>

definition range_py :: "int \<Rightarrow> int list" where
  "range_py n = [0..n - 1]"

text \<open>Python's \<open>a % b\<close> on integers: floored, and an exception when \<open>b = 0\<close>.\<close>

definition mod_py :: "int \<Rightarrow> int \<Rightarrow> error + int" where
  "mod_py a b = (if b = 0 then Inl ZeroDivisionError else Inr (a mod b))"

text \<open>
  \<^verbatim>\<open>
  if args.gpus is not None:
      gpus = args.gpus
  elif args.gpus_per_rank is not None:
      local_size = min(args.ranks_per_node, n_ranks)
      local_rank = rank % local_size
      gpus = [i * local_size + local_rank for i in range(args.gpus_per_rank)]
  else:
      gpus = []
  \<close>
\<close>

definition choose_gpus :: "args \<Rightarrow> int \<Rightarrow> int \<Rightarrow> error + int list" where
  "choose_gpus a rank n_ranks =
     (case args.gpus a of
        Some l \<Rightarrow> Inr l
      | None \<Rightarrow>
          (case args.gpus_per_rank a of
             Some g \<Rightarrow>
               (let local_size = min (args.ranks_per_node a) n_ranks in
                case mod_py rank local_size of
                  Inl e \<Rightarrow> Inl e
                | Inr local_rank \<Rightarrow>
                    Inr (map (\<lambda>i. i * local_size + local_rank) (range_py g)))
           | None \<Rightarrow> Inr []))"

section \<open>Configuration values, data loaders and events\<close>

text \<open>
  What \<open>yaml.load\<close> can return below the top-level mapping. \<open>main\<close> only tells apart
  null, strings and mappings (whose keys are strings, so that \<open>**\<close> can forward them);
  booleans and floats, which it treats as it treats integers, are left out.
\<close>

datatype yaml =
    YNull
  | YStr string
  | YInt int
  | YSeq "yaml list"
  | YMap "(string \<times> yaml) list"

type_synonym config = "(string \<times> yaml) list"
type_synonym kwargs = "(string \<times> yaml) list"

text \<open>A data loader, as far as \<open>main\<close> looks into it: \<open>len(loader.sampler)\<close>.\<close>

record data_loader =
  sampler_len :: int

text \<open>The summary returned by \<open>trainer.train\<close>: metric name to samples.\<close>

type_synonym 'f summary = "(string \<times> 'f list) list"

text \<open>
  The lines \<open>main\<close> logs with \<open>logging.info\<close>, each with the values it formats.
  \<open>'f\<close> is the type of the floating-point values of the report.
\<close>

datatype 'f log_line =
    Initialized int int string
  | Configuration config
  | UsingGPUs "int list"
  | FinishedTraining
  | TrainStats int 'f 'f
  | ValidStats int 'f 'f
  | AllDone

text \<open>The calls \<open>main\<close> makes to its collaborators, with their arguments.\<close>

datatype 'f event =
    InitWorkers "backend option"
  | LoadConfig string
  | MakeDirs string
  | ConfigLogging bool "string option" bool
  | LoggingInfo "'f log_line"
  | TryBarrier
  | GetDataLoaders bool kwargs
  | GetTrainer yaml bool "int list" int "string option"
  | TrainerBuild config
  | LoadCheckpoint
  | TrainerTrain data_loader "data_loader option" kwargs

text \<open>
  The collaborators of \<open>main\<close>, none of which is in the repository's source: what each
  call returns or raises. \<open>'t\<close> is the trainer object. \<open>try_barrier\<close> is called twice,
  so its outcome depends on which call it is (0 or 1).
\<close>

record ('t, 'f) world =
  init_workers :: "backend option \<Rightarrow> error + (int \<times> int)"
  load_yaml :: "string \<Rightarrow> error + config"
  expandvars :: "string \<Rightarrow> string"
  makedirs :: "string \<Rightarrow> error + unit"
  config_logging :: "bool \<Rightarrow> string option \<Rightarrow> bool \<Rightarrow> error + unit"
  gethostname :: string
  try_barrier :: "nat \<Rightarrow> error + unit"
  get_data_loaders :: "bool \<Rightarrow> kwargs \<Rightarrow> error + (data_loader \<times> data_loader option)"
  get_trainer :: "yaml \<Rightarrow> bool \<Rightarrow> int list \<Rightarrow> int \<Rightarrow> string option \<Rightarrow> error + 't"
  trainer_build :: "'t \<Rightarrow> config \<Rightarrow> error + unit"
  trainer_load_checkpoint :: "'t \<Rightarrow> error + unit"
  trainer_train :: "'t \<Rightarrow> data_loader \<Rightarrow> data_loader option \<Rightarrow> kwargs \<Rightarrow> error + 'f summary"
  np_mean :: "'f list \<Rightarrow> 'f"
  truediv :: "int \<Rightarrow> 'f \<Rightarrow> 'f"

section \<open>Sequencing: a trace of calls and a result or an exception\<close>

type_synonym ('f, 'a) run = "'f event list \<times> (error + 'a)"

definition ret :: "'a \<Rightarrow> ('f, 'a) run" where
  "ret x = ([], Inr x)"

definition raise :: "error \<Rightarrow> ('f, 'a) run" where
  "raise e = ([], Inl e)"

text \<open>A call to a collaborator: the call is recorded, its outcome is the collaborator's.\<close>

definition call :: "'f event \<Rightarrow> error + 'a \<Rightarrow> ('f, 'a) run" where
  "call ev r = ([ev], r)"

text \<open>\<open>logging.info\<close> does not raise.\<close>

definition info :: "'f log_line \<Rightarrow> ('f, unit) run" where
  "info l = ([LoggingInfo l], Inr ())"

text \<open>A pure step that may raise.\<close>

definition lift :: "error + 'a \<Rightarrow> ('f, 'a) run" where
  "lift r = ([], r)"

text \<open>Sequencing: an exception ends the run, with the calls made so far.\<close>

definition bnd :: "('f, 'a) run \<Rightarrow> ('a \<Rightarrow> ('f, 'b) run) \<Rightarrow> ('f, 'b) run" where
  "bnd m f =
     (case m of
        (t1, Inl e) \<Rightarrow> (t1, Inl e)
      | (t1, Inr x) \<Rightarrow> (case f x of (t2, r) \<Rightarrow> (t1 @ t2, r)))"

definition whenever :: "bool \<Rightarrow> ('f, unit) run \<Rightarrow> ('f, unit) run" where
  "whenever c m = (if c then m else ret ())"

section \<open>Helpers of \<open>main\<close>\<close>

text \<open>\<open>d[k]\<close> on a mapping: \<open>KeyError\<close> when the key is missing.\<close>

definition getitem :: "(string \<times> 'v) list \<Rightarrow> string \<Rightarrow> error + 'v" where
  "getitem d k = (case map_of d k of None \<Rightarrow> Inl (KeyError k) | Some v \<Rightarrow> Inr v)"

text \<open>\<open>**v\<close> in a call: \<open>v\<close> must be a mapping.\<close>

definition as_kwargs :: "yaml \<Rightarrow> error + kwargs" where
  "as_kwargs v = (case v of YMap kv \<Rightarrow> Inr kv | _ \<Rightarrow> Inl TypeError)"

text \<open>\<open>'%i' % n\<close>: the decimal digits of an integer.\<close>

fun digits :: "nat \<Rightarrow> string" where
  "digits n =
     (if n < 10 then [''0123456789'' ! n]
      else digits (n div 10) @ [''0123456789'' ! (n mod 10)])"

definition format_i :: "int \<Rightarrow> string" where
  "format_i n = (if n < 0 then ''-'' @ digits (nat (- n)) else digits (nat n))"

text \<open>\<open>os.path.join(a, b)\<close> of \<open>posixpath\<close>, for two components.\<close>

definition path_join :: "string \<Rightarrow> string \<Rightarrow> string" where
  "path_join a b =
     (if b \<noteq> [] \<and> hd b = CHR ''/'' then b
      else if a = [] \<or> last a = CHR ''/'' then a @ b
      else a @ ''/'' @ b)"

section \<open>\<open>main\<close>\<close>

text \<open>
  \<^verbatim>\<open>
  output_dir = config.get('output_dir', None)
  if output_dir is not None:
      output_dir = os.path.expandvars(output_dir)
      os.makedirs(output_dir, exist_ok=True)
  \<close>
  \<open>os.path.expandvars\<close> raises \<open>TypeError\<close> on a value that is not a string.
\<close>

definition prepare_output_dir :: "('t, 'f) world \<Rightarrow> config \<Rightarrow> ('f, string option) run" where
  "prepare_output_dir w cfg =
     (case map_of cfg ''output_dir'' of
        None \<Rightarrow> ret None
      | Some YNull \<Rightarrow> ret None
      | Some (YStr s) \<Rightarrow>
          (let output_dir = expandvars w s in
           bnd (call (MakeDirs output_dir) (makedirs w output_dir)) (\<lambda>_.
           ret (Some output_dir)))
      | Some _ \<Rightarrow> raise TypeError)"

text \<open>
  \<^verbatim>\<open>
  if valid_data_loader is not None:
      n_valid_samples = len(valid_data_loader.sampler)
      valid_time = np.mean(summary['valid_time'])
      logging.info('Valid samples %g time %g s rate %g samples/s',
                   n_valid_samples, valid_time, n_valid_samples / valid_time)
  \<close>
\<close>

definition report_valid ::
  "('t, 'f) world \<Rightarrow> 'f summary \<Rightarrow> data_loader option \<Rightarrow> ('f, unit) run" where
  "report_valid w summary valid_data_loader =
     (case valid_data_loader of
        Some v \<Rightarrow>
          (let n_valid_samples = sampler_len v in
           bnd (lift (getitem summary ''valid_time'')) (\<lambda>valid_times.
           let valid_time = np_mean w valid_times in
           info (ValidStats n_valid_samples valid_time
                   (truediv w n_valid_samples valid_time))))
      | None \<Rightarrow> ret ())"

text \<open>
  The body of \<open>main\<close> after \<open>parse_args\<close>, statement by statement. Arguments of a call
  are evaluated before the call, so \<open>config['data']\<close>, \<open>config['trainer']\<close> and
  \<open>config['train']\<close> raise their \<open>KeyError\<close> at the call that uses them.
\<close>

definition main :: "args \<Rightarrow> ('t, 'f) world \<Rightarrow> ('f, unit) run" where
  "main a w =
     bnd (call (InitWorkers (args.distributed_backend a))
            (init_workers w (args.distributed_backend a))) (\<lambda>(rank, n_ranks).
     bnd (call (LoadConfig (args.config a)) (load_yaml w (args.config a))) (\<lambda>config.
     bnd (prepare_output_dir w config) (\<lambda>output_dir.
     let log_file = (case output_dir of
                       Some d \<Rightarrow> Some (path_join d (''out_'' @ format_i rank @ ''.log''))
                     | None \<Rightarrow> None) in
     bnd (call (ConfigLogging (args.verbose a) log_file (args.resume a))
            (config_logging w (args.verbose a) log_file (args.resume a))) (\<lambda>_.
     bnd (info (Initialized rank n_ranks (gethostname w))) (\<lambda>_.
     bnd (call TryBarrier (try_barrier w 0)) (\<lambda>_.
     bnd (whenever (rank = 0) (info (Configuration config))) (\<lambda>_.
     let distributed = (args.distributed_backend a \<noteq> None) in
     bnd (lift (getitem config ''data'')) (\<lambda>data.
     bnd (lift (as_kwargs data)) (\<lambda>data_kw.
     bnd (call (GetDataLoaders distributed data_kw)
            (get_data_loaders w distributed data_kw)) (\<lambda>(train_data_loader, valid_data_loader).
     bnd (lift (choose_gpus a rank n_ranks)) (\<lambda>gpus.
     bnd (whenever (length gpus > 0) (info (UsingGPUs gpus))) (\<lambda>_.
     bnd (lift (getitem config ''trainer'')) (\<lambda>name.
     bnd (call (GetTrainer name distributed gpus rank output_dir)
            (get_trainer w name distributed gpus rank output_dir)) (\<lambda>trainer.
     bnd (call (TrainerBuild config) (trainer_build w trainer config)) (\<lambda>_.
     bnd (whenever (args.resume a)
            (call LoadCheckpoint (trainer_load_checkpoint w trainer))) (\<lambda>_.
     bnd (lift (getitem config ''train'')) (\<lambda>train.
     bnd (lift (as_kwargs train)) (\<lambda>train_kw.
     bnd (call (TrainerTrain train_data_loader valid_data_loader train_kw)
            (trainer_train w trainer train_data_loader valid_data_loader train_kw)) (\<lambda>summary.
     bnd (call TryBarrier (try_barrier w 1)) (\<lambda>_.
     let n_train_samples = sampler_len train_data_loader in
     bnd (info FinishedTraining) (\<lambda>_.
     bnd (lift (getitem summary ''train_time'')) (\<lambda>train_times.
     let train_time = np_mean w train_times in
     bnd (info (TrainStats n_train_samples train_time
                  (truediv w n_train_samples train_time))) (\<lambda>_.
     bnd (report_valid w summary valid_data_loader) (\<lambda>_.
     info AllDone))))))))))))))))))))))))"

section \<open>What a run satisfies\<close>

text \<open>
  \<open>run_sat m Q E\<close>: if the run returns \<open>x\<close> after the calls \<open>t\<close> then \<open>Q t x\<close>, and if it
  raises \<open>e\<close> after the calls \<open>t\<close> then \<open>E t e\<close>.
\<close>

definition run_sat ::
  "('f, 'a) run \<Rightarrow> ('f event list \<Rightarrow> 'a \<Rightarrow> bool) \<Rightarrow> ('f event list \<Rightarrow> error \<Rightarrow> bool) \<Rightarrow> bool" where
  "run_sat m Q E = (case m of (t, Inr x) \<Rightarrow> Q t x | (t, Inl e) \<Rightarrow> E t e)"

section \<open>A concrete command line\<close>

text \<open>The command line with no option given: every default of \<open>parse_args\<close>.\<close>

definition demo_args :: args where
  "demo_args = \<lparr> config = ''configs/hello.yaml'', distributed_backend = None, gpus = None,
       ranks_per_node = 8, gpus_per_rank = None, resume = False, verbose = False \<rparr>"

text \<open>
  A configuration with the three required keys and no \<open>output_dir\<close>, and collaborators that
  all succeed: \<open>init_workers\<close> returns \<open>ident\<close>, the data loaders are a training loader
  of 64 samples and \<open>valid\<close>.
\<close>

definition demo_config :: config where
  "demo_config = [(''trainer'', YStr ''basic''),
                  (''data'', YMap [(''batch_size'', YInt 32)]),
                  (''train'', YMap [(''epochs'', YInt 1)])]"

definition demo_world :: "config \<Rightarrow> int \<times> int \<Rightarrow> data_loader option \<Rightarrow> (unit, real) world" where
  "demo_world cfg ident valid =
     \<lparr> init_workers = (\<lambda>_. Inr ident),
       load_yaml = (\<lambda>_. Inr cfg),
       expandvars = (\<lambda>s. s),
       makedirs = (\<lambda>_. Inr ()),
       config_logging = (\<lambda>_ _ _. Inr ()),
       gethostname = ''node0'',
       try_barrier = (\<lambda>_. Inr ()),
       get_data_loaders = (\<lambda>_ _. Inr (\<lparr>sampler_len = 64\<rparr>, valid)),
       get_trainer = (\<lambda>_ _ _ _ _. Inr ()),
       trainer_build = (\<lambda>_ _. Inr ()),
       trainer_load_checkpoint = (\<lambda>_. Inr ()),
       trainer_train = (\<lambda>_ _ _ _. Inr [(''train_time'', [2, 2]), (''valid_time'', [1])]),
       np_mean = (\<lambda>xs. sum_list xs / real (length xs)),
       truediv = (\<lambda>n t. real_of_int n / t) \<rparr>"

text \<open>The concrete configuration with one key removed.\<close>

definition config_without :: "string \<Rightarrow> config" where
  "config_without k = filter (\<lambda>kv. fst kv \<noteq> k) demo_config"

section \<open>Kinds of calls\<close>

text \<open>Recognisers of the calls and log lines that the ordering properties speak about.\<close>

fun is_barrier :: "'f event \<Rightarrow> bool" where
  "is_barrier TryBarrier = True"
| "is_barrier _ = False"

fun is_config_logging :: "'f event \<Rightarrow> bool" where
  "is_config_logging (ConfigLogging _ _ _) = True"
| "is_config_logging _ = False"

fun is_get_data_loaders :: "'f event \<Rightarrow> bool" where
  "is_get_data_loaders (GetDataLoaders _ _) = True"
| "is_get_data_loaders _ = False"

fun is_get_trainer :: "'f event \<Rightarrow> bool" where
  "is_get_trainer (GetTrainer _ _ _ _ _) = True"
| "is_get_trainer _ = False"

fun is_train :: "'f event \<Rightarrow> bool" where
  "is_train (TrainerTrain _ _ _) = True"
| "is_train _ = False"

fun is_stats :: "'f event \<Rightarrow> bool" where
  "is_stats (LoggingInfo (TrainStats _ _ _)) = True"
| "is_stats (LoggingInfo (ValidStats _ _ _)) = True"
| "is_stats _ = False"

definition constructs :: "'f event \<Rightarrow> bool" where
  "constructs e = (is_get_data_loaders e \<or> is_get_trainer e)"

fun is_load_checkpoint :: "'f event \<Rightarrow> bool" where
  "is_load_checkpoint LoadCheckpoint = True"
| "is_load_checkpoint _ = False"

text \<open>
  \<open>load_ok t\<close>: before the first \<open>load_checkpoint\<close> call of \<open>t\<close> there is a
  \<open>get_trainer\<close> call and no \<open>train\<close> call, and after it there is no further
  \<open>load_checkpoint\<close> call.
\<close>

definition load_ok :: "'f event list \<Rightarrow> bool" where
  "load_ok t =
     (list_ex is_get_trainer (takeWhile (\<lambda>e. \<not> is_load_checkpoint e) t)
      \<and> \<not> list_ex is_train (takeWhile (\<lambda>e. \<not> is_load_checkpoint e) t)
      \<and> \<not> list_ex is_load_checkpoint (tl (dropWhile (\<lambda>e. \<not> is_load_checkpoint e) t)))"

section \<open>Properties of the device plan\<close>

declare digits.simps [simp del]

lemma length_range_py: "length (range_py n) = nat n"
  by (simp add: range_py_def)

lemma nth_range_py: "i < nat n \<Longrightarrow> range_py n ! i = int i"
  by (simp add: range_py_def)

lemma range_py_nonpos: "n \<le> 0 \<Longrightarrow> range_py n = []"
  by (simp add: range_py_def)

lemma choose_gpus_per_rank:
  assumes "args.gpus a = None" and "args.gpus_per_rank a = Some g"
    and "min (args.ranks_per_node a) n_ranks \<noteq> 0"
  shows "choose_gpus a rank n_ranks =
           Inr (map (\<lambda>i. i * min (args.ranks_per_node a) n_ranks
                          + rank mod min (args.ranks_per_node a) n_ranks) (range_py g))"
  using assms by (simp add: choose_gpus_def mod_py_def Let_def)

section \<open>Rules for \<open>run_sat\<close>\<close>

lemma run_sat_bnd:
  "run_sat (bnd m f) Q E =
     run_sat m (\<lambda>t1 x. run_sat (f x) (\<lambda>t2. Q (t1 @ t2)) (\<lambda>t2. E (t1 @ t2))) E"
  by (auto simp: run_sat_def bnd_def split: prod.splits sum.splits)

lemma run_sat_call:
  "run_sat (call ev r) Q E = ((\<forall>x. r = Inr x \<longrightarrow> Q [ev] x) \<and> (\<forall>e. r = Inl e \<longrightarrow> E [ev] e))"
  by (auto simp: run_sat_def call_def split: sum.splits)

lemma run_sat_lift:
  "run_sat (lift r) Q E = ((\<forall>x. r = Inr x \<longrightarrow> Q [] x) \<and> (\<forall>e. r = Inl e \<longrightarrow> E [] e))"
  by (auto simp: run_sat_def lift_def split: sum.splits)

lemma run_sat_info: "run_sat (info l) Q E = Q [LoggingInfo l] ()"
  by (simp add: run_sat_def info_def)

lemma run_sat_ret: "run_sat (ret x) Q E = Q [] x"
  by (simp add: run_sat_def ret_def)

lemma run_sat_raise: "run_sat (raise e) Q E = E [] e"
  by (simp add: run_sat_def raise_def)

lemma run_sat_whenever_info:
  "run_sat (whenever c (info l)) Q E = Q (if c then [LoggingInfo l] else []) ()"
  by (simp add: run_sat_def whenever_def info_def ret_def)

lemma run_sat_whenever_call:
  "run_sat (whenever c (call ev r)) Q E =
     ((\<forall>x. (c \<longrightarrow> r = Inr x) \<longrightarrow> Q (if c then [ev] else []) ()) \<and>
      (\<forall>e. c \<and> r = Inl e \<longrightarrow> E [ev] e))"
  by (auto simp: run_sat_def whenever_def call_def ret_def split: sum.splits)

lemma prepare_output_dir_trace:
  "\<exists>ds. fst (prepare_output_dir w cfg) = map MakeDirs ds"
proof (cases "\<exists>s. map_of cfg ''output_dir'' = Some (YStr s)")
  case True
  then obtain s where "map_of cfg ''output_dir'' = Some (YStr s)" by blast
  then have "fst (prepare_output_dir w cfg) = map MakeDirs [expandvars w s]"
    by (simp add: prepare_output_dir_def bnd_def call_def ret_def Let_def
        split: sum.splits)
  then show ?thesis by blast
next
  case False
  then have "fst (prepare_output_dir w cfg) = map MakeDirs []"
    by (simp add: prepare_output_dir_def ret_def raise_def
        split: option.splits yaml.splits)
  then show ?thesis by blast
qed

lemma run_sat_prepare_output_dir:
  "run_sat (prepare_output_dir w cfg) Q E =
     (\<forall>ds. (\<forall>od. prepare_output_dir w cfg = (map MakeDirs ds, Inr od) \<longrightarrow> Q (map MakeDirs ds) od)
         \<and> (\<forall>e. prepare_output_dir w cfg = (map MakeDirs ds, Inl e) \<longrightarrow> E (map MakeDirs ds) e))"
proof -
  obtain ds where ds: "fst (prepare_output_dir w cfg) = map MakeDirs ds"
    using prepare_output_dir_trace by blast
  obtain r where r: "prepare_output_dir w cfg = (map MakeDirs ds, r)"
    using ds by (cases "prepare_output_dir w cfg") simp
  show ?thesis
    by (cases r) (auto simp: run_sat_def r)
qed

lemma run_sat_report_valid:
  "run_sat (report_valid w s vl) Q E =
     ((\<forall>vs. (case vl of None \<Rightarrow> True | Some v \<Rightarrow> map_of s ''valid_time'' = Some vs) \<longrightarrow>
         Q (case vl of
              None \<Rightarrow> []
            | Some v \<Rightarrow> [LoggingInfo (ValidStats (sampler_len v) (np_mean w vs)
                            (truediv w (sampler_len v) (np_mean w vs)))]) ())
      \<and> (vl \<noteq> None \<and> map_of s ''valid_time'' = None \<longrightarrow> E [] (KeyError ''valid_time'')))"
  by (auto simp: report_valid_def run_sat_bnd run_sat_lift run_sat_info run_sat_ret Let_def
      getitem_def split: option.splits)

lemmas run_sat_simps = run_sat_bnd run_sat_call run_sat_lift run_sat_info run_sat_ret
  run_sat_raise run_sat_whenever_info run_sat_whenever_call run_sat_prepare_output_dir
  run_sat_report_valid

lemma run_sat_trace:
  assumes "run_sat m (\<lambda>t _. P t) (\<lambda>t _. P t)"
  shows "P (fst m)"
  using assms by (cases m) (auto simp: run_sat_def split: sum.splits)

lemma main_devices:
  assumes "GetTrainer nm d devs rk od \<in> set (fst (main a w))"
  shows "\<exists>n. init_workers w (args.distributed_backend a) = Inr (rk, n)
            \<and> choose_gpus a rk n = Inr devs"
proof -
  let ?P = "\<lambda>t. GetTrainer nm d devs rk od \<in> set t \<longrightarrow>
     (\<exists>n. init_workers w (args.distributed_backend a) = Inr (rk, n)
            \<and> choose_gpus a rk n = Inr devs)"
  have "run_sat (main a w) (\<lambda>t _. ?P t) (\<lambda>t _. ?P t)"
    by (simp add: main_def run_sat_simps Let_def image_iff split: option.splits)
  then have "?P (fst (main a w))" by (rule run_sat_trace)
  with assms show ?thesis by blast
qed

section \<open>The per-rank-count device plan\<close>

text \<open>
  Claim C1. With no explicit device list and a positive \<open>gpus_per_rank\<close>, the plan has
  \<open>gpus_per_rank\<close> entries and entry \<open>i\<close> is \<open>i * local_size + local_rank\<close>, where
  \<open>local_size = min(ranks_per_node, world_size)\<close> and \<open>local_rank = rank mod local_size\<close>.
  \<open>local_size\<close> is not zero (it is positive whenever \<open>ranks_per_node\<close> and the world size
  are, as the data model has them); for \<open>local_size = 0\<close> the statement
  \<open>rank % local_size\<close> raises. The witness is the case \<open>ranks_per_node = 8\<close>,
  \<open>gpus_per_rank = 2\<close>, \<open>world_size = 16\<close>, \<open>rank = 9\<close>, whose plan is \<open>[1, 9]\<close>.
\<close>

theorem device_plan_formula:
  assumes "args.gpus a = None" and "args.gpus_per_rank a = Some g" and "0 < g"
    and "min (args.ranks_per_node a) n_ranks \<noteq> 0"
  shows "\<exists>plan. choose_gpus a rank n_ranks = Inr plan \<and> length plan = nat g \<and>
           (\<forall>i < nat g. plan ! i = int i * min (args.ranks_per_node a) n_ranks
                                     + rank mod min (args.ranks_per_node a) n_ranks)"
  using assms
  by (simp add: choose_gpus_per_rank length_range_py nth_range_py)

theorem device_plan_formula_witness:
  "args.gpus (demo_args\<lparr>gpus_per_rank := Some 2\<rparr>) = None \<and>
   args.gpus_per_rank (demo_args\<lparr>gpus_per_rank := Some 2\<rparr>) = Some 2 \<and> (0::int) < 2 \<and>
   min (args.ranks_per_node (demo_args\<lparr>gpus_per_rank := Some 2\<rparr>)) 16 \<noteq> 0 \<and>
   choose_gpus (demo_args\<lparr>gpus_per_rank := Some 2\<rparr>) 9 16 = Inr [1, 9]"
proof -
  let ?a = "demo_args\<lparr>gpus_per_rank := Some 2\<rparr>"
  have h: "args.gpus ?a = None" "args.gpus_per_rank ?a = Some 2" "(0::int) < 2"
    "min (args.ranks_per_node ?a) 16 \<noteq> 0"
    by (simp_all add: demo_args_def)
  from device_plan_formula [OF h, of 9]
  obtain plan where p: "choose_gpus ?a 9 16 = Inr plan" "length plan = 2"
    "\<forall>i<2. plan ! i = int i * min (args.ranks_per_node ?a) 16
                        + 9 mod min (args.ranks_per_node ?a) 16"
    by auto
  from p(3) have "plan ! 0 = 1" "plan ! 1 = 9"
    by (simp_all add: demo_args_def)
  with p(2) have "plan = [1, 9]"
    by (cases plan; cases "tl plan") auto
  with p(1) h show ?thesis by simp
qed

lemma strided_distinct:
  fixes L :: int
  assumes "0 < L" and "r1 \<noteq> r2" and "r1 div L = r2 div L"
  shows "i * L + r1 mod L \<noteq> j * L + r2 mod L"
proof
  assume eq: "i * L + r1 mod L = j * L + r2 mod L"
  have "(i * L + r1 mod L) mod L = r1 mod L" by simp
  moreover have "(j * L + r2 mod L) mod L = r2 mod L" by simp
  ultimately have "r1 mod L = r2 mod L" using eq by metis
  with assms(3) have "r1 = r2"
    by (metis mult_div_mod_eq)
  with assms(2) show False by simp
qed


text \<open>
  Claim C2. For \<open>world_size \<ge> 1\<close>, \<open>ranks_per_node \<ge> 1\<close> and \<open>gpus_per_rank \<ge> 1\<close>, the
  per-rank-count plans of two distinct ranks of one node (equal \<open>rank div local_size\<close>) have
  no device id in common.
\<close>

theorem device_plans_disjoint:
  assumes "args.gpus a = None" and "args.gpus_per_rank a = Some g" and "1 \<le> g"
    and "1 \<le> args.ranks_per_node a" and "1 \<le> n_ranks"
    and "r1 \<noteq> r2"
    and "r1 div min (args.ranks_per_node a) n_ranks = r2 div min (args.ranks_per_node a) n_ranks"
  shows "\<exists>p1 p2. choose_gpus a r1 n_ranks = Inr p1 \<and> choose_gpus a r2 n_ranks = Inr p2
           \<and> set p1 \<inter> set p2 = {}"
proof -
  let ?L = "min (args.ranks_per_node a) n_ranks"
  have L: "0 < ?L" using assms(4,5) by simp
  have nz: "?L \<noteq> 0" using assms(4,5) by (simp add: min_def)
  have "set (map (\<lambda>i. i * ?L + r1 mod ?L) (range_py g))
          \<inter> set (map (\<lambda>i. i * ?L + r2 mod ?L) (range_py g)) = {}"
    using strided_distinct [OF L assms(6,7)] by auto
  then show ?thesis
    using choose_gpus_per_rank [OF assms(1,2) nz] by simp
qed

theorem device_plans_disjoint_witness:
  "args.gpus (demo_args\<lparr>gpus_per_rank := Some 2\<rparr>) = None \<and>
   args.gpus_per_rank (demo_args\<lparr>gpus_per_rank := Some 2\<rparr>) = Some 2 \<and> (1::int) \<le> 2 \<and>
   1 \<le> args.ranks_per_node (demo_args\<lparr>gpus_per_rank := Some 2\<rparr>) \<and> (1::int) \<le> 16 \<and>
   (9::int) \<noteq> 12 \<and>
   (9::int) div min (args.ranks_per_node (demo_args\<lparr>gpus_per_rank := Some 2\<rparr>)) 16
     = 12 div min (args.ranks_per_node (demo_args\<lparr>gpus_per_rank := Some 2\<rparr>)) 16 \<and>
   choose_gpus (demo_args\<lparr>gpus_per_rank := Some 2\<rparr>) 9 16 = Inr [1, 9] \<and>
   choose_gpus (demo_args\<lparr>gpus_per_rank := Some 2\<rparr>) 12 16 = Inr [4, 12] \<and>
   set [1, 9 :: int] \<inter> set [4, 12] = {}"
proof -
  let ?a = "demo_args\<lparr>gpus_per_rank := Some 2\<rparr>"
  have h: "args.gpus ?a = None" "args.gpus_per_rank ?a = Some 2" "(1::int) \<le> 2"
    "1 \<le> args.ranks_per_node ?a" "(1::int) \<le> 16" "(9::int) \<noteq> 12"
    "(9::int) div min (args.ranks_per_node ?a) 16 = 12 div min (args.ranks_per_node ?a) 16"
    by (simp_all add: demo_args_def)
  have c: "choose_gpus ?a 9 16 = Inr [1, 9]" "choose_gpus ?a 12 16 = Inr [4, 12]"
    by (simp_all add: choose_gpus_def demo_args_def mod_py_def range_py_def upto.simps)
  from device_plans_disjoint [OF h] c have "set [1, 9 :: int] \<inter> set [4, 12] = {}"
    by simp
  with h c show ?thesis by simp
qed


section \<open>The run of the concrete command line\<close>

lemmas run_defs = main_def bnd_def call_def info_def lift_def ret_def raise_def whenever_def
  prepare_output_dir_def report_valid_def getitem_def as_kwargs_def

lemma demo_run:
  "main demo_args (demo_world demo_config (0, 1) None) =
     ([InitWorkers None, LoadConfig ''configs/hello.yaml'',
       ConfigLogging False None False,
       LoggingInfo (Initialized 0 1 ''node0''), TryBarrier,
       LoggingInfo (Configuration demo_config),
       GetDataLoaders False [(''batch_size'', YInt 32)],
       GetTrainer (YStr ''basic'') False [] 0 None,
       TrainerBuild demo_config,
       TrainerTrain \<lparr>sampler_len = 64\<rparr> None [(''epochs'', YInt 1)],
       TryBarrier,
       LoggingInfo FinishedTraining,
       LoggingInfo (TrainStats 64 2 32),
       LoggingInfo AllDone], Inr ())"
  by (simp add: run_defs demo_args_def demo_world_def demo_config_def choose_gpus_def)

section \<open>The other two modes of the device plan\<close>

text \<open>
  Claim C5. When an explicit device list is given, the plan is that list, whatever it holds
  (the empty list too) and whether or not \<open>gpus_per_rank\<close> is given as well: it is what
  lines 78 to 89 compute and what \<open>main\<close> hands to \<open>get_trainer\<close>.
\<close>

theorem explicit_gpus_verbatim:
  assumes "args.gpus a = Some l"
  shows "choose_gpus a rank n_ranks = Inr l \<and>
         (\<forall>nm d devs rk od. GetTrainer nm d devs rk od \<in> set (fst (main a w)) \<longrightarrow> devs = l)"
proof
  show c: "choose_gpus a rank n_ranks = Inr l" for rank n_ranks
    using assms by (simp add: choose_gpus_def)
  show "\<forall>nm d devs rk od. GetTrainer nm d devs rk od \<in> set (fst (main a w)) \<longrightarrow> devs = l"
    using main_devices [of _ _ _ _ _ a w] c by fastforce
qed

theorem explicit_gpus_verbatim_witness:
  "args.gpus (demo_args\<lparr>gpus := Some [], gpus_per_rank := Some 2\<rparr>) = Some [] \<and>
   choose_gpus (demo_args\<lparr>gpus := Some [], gpus_per_rank := Some 2\<rparr>) 0 1 = Inr [] \<and>
   GetTrainer (YStr ''basic'') False [] 0 None
     \<in> set (fst (main (demo_args\<lparr>gpus := Some [], gpus_per_rank := Some 2\<rparr>)
                   (demo_world demo_config (0, 1) None)))"
proof -
  let ?a = "demo_args\<lparr>gpus := Some [], gpus_per_rank := Some 2\<rparr>"
  have h: "args.gpus ?a = Some []" by (simp add: demo_args_def)
  have m: "GetTrainer (YStr ''basic'') False [] 0 None
     \<in> set (fst (main ?a (demo_world demo_config (0, 1) None)))"
    by (simp add: run_defs demo_args_def demo_world_def demo_config_def choose_gpus_def)
  from explicit_gpus_verbatim [OF h, of 0 1 "demo_world demo_config (0, 1) None"] h m
  show ?thesis by simp
qed

text \<open>
  Claim C9. When neither an explicit device list nor \<open>gpus_per_rank\<close> is given, the plan is
  the empty list, a value and not an exception, and \<open>main\<close> hands it to \<open>get_trainer\<close>.
\<close>

theorem default_plan_empty:
  assumes "args.gpus a = None" and "args.gpus_per_rank a = None"
  shows "choose_gpus a rank n_ranks = Inr [] \<and>
         (\<forall>nm d devs rk od. GetTrainer nm d devs rk od \<in> set (fst (main a w)) \<longrightarrow> devs = [])"
proof
  show c: "choose_gpus a rank n_ranks = Inr []" for rank n_ranks
    using assms by (simp add: choose_gpus_def)
  show "\<forall>nm d devs rk od. GetTrainer nm d devs rk od \<in> set (fst (main a w)) \<longrightarrow> devs = []"
    using main_devices [of _ _ _ _ _ a w] c by fastforce
qed

theorem default_plan_empty_witness:
  "args.gpus demo_args = None \<and> args.gpus_per_rank demo_args = None \<and>
   choose_gpus demo_args 0 1 = Inr [] \<and>
   GetTrainer (YStr ''basic'') False [] 0 None
     \<in> set (fst (main demo_args (demo_world demo_config (0, 1) None)))"
proof -
  have h: "args.gpus demo_args = None" "args.gpus_per_rank demo_args = None"
    by (simp_all add: demo_args_def)
  have m: "GetTrainer (YStr ''basic'') False [] 0 None
     \<in> set (fst (main demo_args (demo_world demo_config (0, 1) None)))"
    by (simp add: demo_run)
  from default_plan_empty [OF h, of 0 1 "demo_world demo_config (0, 1) None"] h m
  show ?thesis by simp
qed

lemma sorted_strided:
  fixes L :: int
  assumes "0 < L"
  shows "sorted_wrt (<) (map (\<lambda>i. i * L + r) (range_py g))"
proof -
  have "sorted_wrt (\<lambda>x y. x * L + r < y * L + r) [0..g - 1]"
    by (rule sorted_wrt_mono_rel [of _ "(<)"]) (use assms in auto)
  then show ?thesis
    by (simp add: sorted_wrt_map range_py_def)
qed


text \<open>
  Claim C10. With no explicit device list and a positive \<open>local_size\<close>: a
  \<open>gpus_per_rank\<close> that is zero or negative raises nothing and gives the empty plan, the
  plan of the command line without \<open>gpus_per_rank\<close>; a positive \<open>gpus_per_rank\<close> gives a
  plan of exactly that many entries, strictly increasing.
\<close>

theorem plan_for_any_count:
  assumes "args.gpus a = None" and "args.gpus_per_rank a = Some g"
    and "0 < min (args.ranks_per_node a) n_ranks"
  shows "(g \<le> 0 \<longrightarrow> choose_gpus a rank n_ranks = Inr []
                   \<and> choose_gpus a rank n_ranks
                       = choose_gpus (a\<lparr>gpus_per_rank := None\<rparr>) rank n_ranks)
       \<and> (0 < g \<longrightarrow> (\<exists>plan. choose_gpus a rank n_ranks = Inr plan
                          \<and> int (length plan) = g \<and> sorted_wrt (<) plan))"
proof -
  let ?L = "min (args.ranks_per_node a) n_ranks"
  have nz: "?L \<noteq> 0" using assms(3) by arith
  note eq = choose_gpus_per_rank [OF assms(1,2) nz, of rank]
  have "choose_gpus (a\<lparr>gpus_per_rank := None\<rparr>) rank n_ranks = Inr []"
    using assms(1) by (simp add: choose_gpus_def)
  then show ?thesis
    using eq sorted_strided [OF assms(3)]
    by (simp add: range_py_nonpos length_range_py)
qed

theorem plan_for_any_count_witness:
  "choose_gpus (demo_args\<lparr>gpus_per_rank := Some 0\<rparr>) 9 16 = Inr [] \<and>
   choose_gpus (demo_args\<lparr>gpus_per_rank := Some (- 3)\<rparr>) 9 16 = Inr [] \<and>
   (\<exists>plan. choose_gpus (demo_args\<lparr>gpus_per_rank := Some 2\<rparr>) 9 16 = Inr plan
        \<and> int (length plan) = 2 \<and> sorted_wrt (<) plan)"
proof -
  have h: "args.gpus (demo_args\<lparr>gpus_per_rank := Some g\<rparr>) = None"
    "args.gpus_per_rank (demo_args\<lparr>gpus_per_rank := Some g\<rparr>) = Some g"
    "0 < min (args.ranks_per_node (demo_args\<lparr>gpus_per_rank := Some g\<rparr>)) 16" for g
    by (simp_all add: demo_args_def)
  from plan_for_any_count [OF h, of 0 9] plan_for_any_count [OF h, of "- 3" 9]
    plan_for_any_count [OF h, of 2 9]
  show ?thesis by simp
qed


section \<open>Traces of \<open>main\<close>\<close>

lemma getitem_Inr: "getitem d k = Inr v \<longleftrightarrow> map_of d k = Some v"
  by (simp add: getitem_def split: option.splits)

lemma as_kwargs_Inr: "as_kwargs v = Inr kw \<longleftrightarrow> v = YMap kw"
  by (simp add: as_kwargs_def split: yaml.splits)

lemma list_all_when: "list_all P (if c then [e] else []) = (c \<longrightarrow> P e)"
  by simp

lemma list_all_makedirs: "list_all P (map MakeDirs ds) = (\<forall>d\<in>set ds. P (MakeDirs d))"
  by (simp add: list_all_iff)

lemma list_all_valid_line:
  "list_all P (case vl of None \<Rightarrow> [] | Some v \<Rightarrow> [f v]) = (\<forall>v. vl = Some v \<longrightarrow> P (f v))"
  by (simp split: option.splits)

lemmas list_all_trace = list_all_when list_all_makedirs list_all_valid_line

lemma list_ex_when: "list_ex P (if c then [e] else []) = (c \<and> P e)"
  by simp

lemma list_ex_makedirs: "list_ex P (map MakeDirs ds) = (\<exists>d\<in>set ds. P (MakeDirs d))"
  by (simp add: list_ex_iff)

lemma list_ex_valid_line:
  "list_ex P (case vl of None \<Rightarrow> [] | Some v \<Rightarrow> [f v]) = (\<exists>v. vl = Some v \<and> P (f v))"
  by (simp split: option.splits)

lemmas list_ex_trace = list_ex_when list_ex_makedirs list_ex_valid_line

lemma takeWhile_makedirs:
  "(\<And>d. P (MakeDirs d)) \<Longrightarrow> takeWhile P (map MakeDirs ds @ ys) = map MakeDirs ds @ takeWhile P ys"
  by (induction ds) auto

lemma dropWhile_makedirs:
  "(\<And>d. P (MakeDirs d)) \<Longrightarrow> dropWhile P (map MakeDirs ds @ ys) = dropWhile P ys"
  by (induction ds) auto

lemma takeWhile_when:
  "takeWhile P ((if c then [e] else []) @ ys) =
     (if c \<and> \<not> P e then [] else (if c then [e] else []) @ takeWhile P ys)"
  by simp

lemma dropWhile_when:
  "dropWhile P ((if c then [e] else []) @ ys) =
     (if c \<and> \<not> P e then e # ys else dropWhile P ys)"
  by simp

lemmas scan_trace = takeWhile_makedirs dropWhile_makedirs takeWhile_when dropWhile_when

lemma only_occurrence:
  assumes "t = pre @ x # post" and "P x"
    and "\<not> list_ex P (tl (dropWhile (\<lambda>e. \<not> P e) t))"
  shows "pre = takeWhile (\<lambda>e. \<not> P e) t \<and> post = tl (dropWhile (\<lambda>e. \<not> P e) t)"
proof -
  have npre: "\<not> list_ex P pre"
  proof
    assume "list_ex P pre"
    then have "\<exists>y\<in>set pre. P y" by (simp add: list_ex_iff)
    then obtain p1 y p2 where p: "pre = p1 @ y # p2" "P y" "\<forall>z\<in>set p1. \<not> P z"
      using split_list_first_prop [of pre P] by blast
    then have "dropWhile (\<lambda>e. \<not> P e) t = y # p2 @ x # post"
      using assms(1) by (simp add: dropWhile_append2)
    then have "list_ex P (tl (dropWhile (\<lambda>e. \<not> P e) t))"
      using assms(2) by (simp add: list_ex_iff)
    with assms(3) show False by simp
  qed
  then have "\<forall>z\<in>set pre. \<not> P z" by (simp add: list_ex_iff)
  then have "takeWhile (\<lambda>e. \<not> P e) t = pre" "dropWhile (\<lambda>e. \<not> P e) t = x # post"
    using assms(1,2) by (simp_all add: takeWhile_append2 dropWhile_append2)
  then show ?thesis by simp
qed


lemma main_completed:
  assumes "main a w = (tr, Inr ())"
  obtains rank n_ranks cfg ds od dkw tl vl devs nm t tkw s ts vs where
     "init_workers w (args.distributed_backend a) = Inr (rank, n_ranks)"
     "load_yaml w (args.config a) = Inr cfg"
     "prepare_output_dir w cfg = (map MakeDirs ds, Inr od)"
     "map_of cfg ''data'' = Some (YMap dkw)"
     "get_data_loaders w (args.distributed_backend a \<noteq> None) dkw = Inr (tl, vl)"
     "choose_gpus a rank n_ranks = Inr devs"
     "map_of cfg ''trainer'' = Some nm"
     "get_trainer w nm (args.distributed_backend a \<noteq> None) devs rank od = Inr t"
     "map_of cfg ''train'' = Some (YMap tkw)"
     "trainer_train w t tl vl tkw = Inr s"
     "map_of s ''train_time'' = Some ts"
     "case vl of None \<Rightarrow> True | Some v \<Rightarrow> map_of s ''valid_time'' = Some vs"
     "tr = [InitWorkers (args.distributed_backend a), LoadConfig (args.config a)]
          @ map MakeDirs ds
          @ [ConfigLogging (args.verbose a)
               (case od of None \<Rightarrow> None
                | Some d \<Rightarrow> Some (path_join d (''out_'' @ format_i rank @ ''.log'')))
               (args.resume a),
             LoggingInfo (Initialized rank n_ranks (gethostname w)),
             TryBarrier]
          @ (if rank = 0 then [LoggingInfo (Configuration cfg)] else [])
          @ [GetDataLoaders (args.distributed_backend a \<noteq> None) dkw]
          @ (if 0 < length devs then [LoggingInfo (UsingGPUs devs)] else [])
          @ [GetTrainer nm (args.distributed_backend a \<noteq> None) devs rank od,
             TrainerBuild cfg]
          @ (if args.resume a then [LoadCheckpoint] else [])
          @ [TrainerTrain tl vl tkw,
             TryBarrier,
             LoggingInfo FinishedTraining,
             LoggingInfo (TrainStats (sampler_len tl) (np_mean w ts)
               (truediv w (sampler_len tl) (np_mean w ts)))]
          @ (case vl of
               None \<Rightarrow> []
             | Some v \<Rightarrow> [LoggingInfo (ValidStats (sampler_len v) (np_mean w vs)
                             (truediv w (sampler_len v) (np_mean w vs)))])
          @ [LoggingInfo AllDone]"
proof -
  from assms have "\<not> run_sat (main a w) (\<lambda>t _. t \<noteq> tr) (\<lambda>_ _. True)"
    by (simp add: run_sat_def)
  then show thesis
    apply (simp add: main_def run_sat_simps Let_def getitem_Inr as_kwargs_Inr
        split del: if_split cong: if_cong)
    apply (elim exE conjE)
    subgoal for rank n_ranks cfg ds od data dkw tl vl devs nm t train tkw s ts vs
      by (rule that [of rank n_ranks cfg ds od dkw tl vl devs nm t tkw s ts vs]) simp_all
    done
qed

lemma main_returns: "snd (main a w) = Inr () \<Longrightarrow> main a w = (fst (main a w), Inr ())"
  by (metis prod.collapse)


lemmas demo_defs = demo_args_def demo_world_def demo_config_def choose_gpus_def


section \<open>The distributed flag\<close>

lemma main_distributed_flag:
  "list_all (\<lambda>e. case e of
        GetDataLoaders d _ \<Rightarrow> d = (args.distributed_backend a \<noteq> None)
      | GetTrainer _ d _ _ _ \<Rightarrow> d = (args.distributed_backend a \<noteq> None)
      | _ \<Rightarrow> True) (fst (main a w))"
proof -
  let ?ok = "\<lambda>e. case e of
        GetDataLoaders d _ \<Rightarrow> d = (args.distributed_backend a \<noteq> None)
      | GetTrainer _ d _ _ _ \<Rightarrow> d = (args.distributed_backend a \<noteq> None)
      | _ \<Rightarrow> True"
  have "run_sat (main a w) (\<lambda>t _. list_all ?ok t) (\<lambda>t _. list_all ?ok t)"
    by (simp add: main_def run_sat_simps Let_def list_all_trace
        split del: if_split cong: if_cong)
  then show ?thesis by (rule run_sat_trace)
qed

text \<open>
  Claim C6. In every run, the \<open>distributed\<close> argument of every \<open>get_data_loaders\<close> call and
  of every \<open>get_trainer\<close> call is true exactly when a distributed backend was selected on
  the command line, whatever rank and world size \<open>init_workers\<close> returned; and a run that
  returns has made both calls.
\<close>

theorem distributed_flag:
  "(\<forall>d kw. GetDataLoaders d kw \<in> set (fst (main a w))
        \<longrightarrow> d = (args.distributed_backend a \<noteq> None))
   \<and> (\<forall>nm d devs rk od. GetTrainer nm d devs rk od \<in> set (fst (main a w))
        \<longrightarrow> d = (args.distributed_backend a \<noteq> None))
   \<and> (snd (main a w) = Inr () \<longrightarrow>
        (\<exists>kw. GetDataLoaders (args.distributed_backend a \<noteq> None) kw \<in> set (fst (main a w)))
      \<and> (\<exists>nm devs rk od. GetTrainer nm (args.distributed_backend a \<noteq> None) devs rk od
                            \<in> set (fst (main a w))))"
proof (intro conjI allI impI)
  fix d kw
  assume "GetDataLoaders d kw \<in> set (fst (main a w))"
  with main_distributed_flag [of a w] show "d = (args.distributed_backend a \<noteq> None)"
    by (auto simp: list_all_iff)
next
  fix nm d devs rk od
  assume "GetTrainer nm d devs rk od \<in> set (fst (main a w))"
  with main_distributed_flag [of a w] show "d = (args.distributed_backend a \<noteq> None)"
    by (auto simp: list_all_iff)
next
  assume "snd (main a w) = Inr ()"
  then have m: "main a w = (fst (main a w), Inr ())" by (rule main_returns)
  then show "\<exists>kw. GetDataLoaders (args.distributed_backend a \<noteq> None) kw \<in> set (fst (main a w))"
    by (rule main_completed) auto
next
  assume "snd (main a w) = Inr ()"
  then have m: "main a w = (fst (main a w), Inr ())" by (rule main_returns)
  then show "\<exists>nm devs rk od. GetTrainer nm (args.distributed_backend a \<noteq> None) devs rk od
                            \<in> set (fst (main a w))"
    by (rule main_completed) auto
qed

theorem distributed_flag_witness:
  "GetDataLoaders False [(''batch_size'', YInt 32)]
     \<in> set (fst (main demo_args (demo_world demo_config (3, 4) None)))
   \<and> (args.distributed_backend demo_args \<noteq> None) = False
   \<and> GetTrainer (YStr ''basic'') True [] 0 None
     \<in> set (fst (main (demo_args\<lparr>distributed_backend := Some Nccl\<rparr>)
                   (demo_world demo_config (0, 1) None)))
   \<and> (args.distributed_backend (demo_args\<lparr>distributed_backend := Some Nccl\<rparr>) \<noteq> None) = True"
proof -
  have m1: "GetDataLoaders False [(''batch_size'', YInt 32)]
     \<in> set (fst (main demo_args (demo_world demo_config (3, 4) None)))"
    by (simp add: run_defs demo_defs)
  have m2: "GetTrainer (YStr ''basic'') True [] 0 None
     \<in> set (fst (main (demo_args\<lparr>distributed_backend := Some Nccl\<rparr>)
                   (demo_world demo_config (0, 1) None)))"
    by (simp add: run_defs demo_defs)
  from distributed_flag [of demo_args "demo_world demo_config (3, 4) None"] m1
  have "False = (args.distributed_backend demo_args \<noteq> None)" by blast
  moreover
  from distributed_flag [of "demo_args\<lparr>distributed_backend := Some Nccl\<rparr>"
      "demo_world demo_config (0, 1) None"] m2
  have "True = (args.distributed_backend (demo_args\<lparr>distributed_backend := Some Nccl\<rparr>) \<noteq> None)"
    by blast
  ultimately show ?thesis using m1 m2 by simp
qed


section \<open>Resuming from a checkpoint\<close>

lemma main_load_scan:
  "(list_ex is_load_checkpoint (fst (main a w)) \<longrightarrow> args.resume a \<and> load_ok (fst (main a w)))
   \<and> (list_ex is_train (fst (main a w)) \<and> args.resume a
        \<longrightarrow> list_ex is_load_checkpoint (fst (main a w)))"
proof -
  let ?P = "\<lambda>t. (list_ex is_load_checkpoint t \<longrightarrow> args.resume a \<and> load_ok t)
     \<and> (list_ex is_train t \<and> args.resume a \<longrightarrow> list_ex is_load_checkpoint t)"
  have "run_sat (main a w) (\<lambda>t _. ?P t) (\<lambda>t _. ?P t)"
    by (simp add: main_def run_sat_simps Let_def list_ex_trace scan_trace load_ok_def
        split del: if_split cong: if_cong)
  then show ?thesis by (rule run_sat_trace)
qed

lemma is_load_checkpoint_iff: "is_load_checkpoint e \<longleftrightarrow> e = LoadCheckpoint"
  by (cases e) simp_all

lemma list_ex_load_checkpoint: "list_ex is_load_checkpoint t \<longleftrightarrow> LoadCheckpoint \<in> set t"
  by (simp add: list_ex_iff is_load_checkpoint_iff)


text \<open>
  Claim C4. In every run: \<open>load_checkpoint\<close> is called only if the resume flag is set;
  wherever it is called, \<open>get_trainer\<close> has been called before it, \<open>train\<close> has not, and
  it is the only such call; if the resume flag is set and \<open>train\<close> is called then
  \<open>load_checkpoint\<close> has been called (so it precedes that \<open>train\<close> call); and a run that
  returns has called \<open>train\<close>.
\<close>

theorem resume_ordering:
  assumes "main a w = (tr, r)"
  shows "(LoadCheckpoint \<in> set tr \<longrightarrow> args.resume a)
       \<and> (\<forall>pre post. tr = pre @ LoadCheckpoint # post \<longrightarrow>
             list_ex is_get_trainer pre \<and> \<not> list_ex is_train pre
             \<and> LoadCheckpoint \<notin> set pre \<and> LoadCheckpoint \<notin> set post)
       \<and> (args.resume a \<and> list_ex is_train tr \<longrightarrow> LoadCheckpoint \<in> set tr)
       \<and> (r = Inr () \<longrightarrow> list_ex is_train tr)"
proof (intro conjI allI impI)
  note scan = main_load_scan [of a w, unfolded assms fst_conv]
  show "args.resume a" if "LoadCheckpoint \<in> set tr"
    using scan that by (simp add: list_ex_load_checkpoint)
  show "LoadCheckpoint \<in> set tr" if "args.resume a \<and> list_ex is_train tr"
    using scan that by (simp add: list_ex_load_checkpoint)
  show "list_ex is_train tr" if "r = Inr ()"
    using assms unfolding that by (rule main_completed) simp
  fix pre post
  assume tr: "tr = pre @ LoadCheckpoint # post"
  then have "list_ex is_load_checkpoint tr" by (simp add: list_ex_load_checkpoint)
  with scan have ok: "load_ok tr" by simp
  then have "\<not> list_ex is_load_checkpoint (tl (dropWhile (\<lambda>e. \<not> is_load_checkpoint e) tr))"
    by (simp add: load_ok_def)
  with tr have pp: "pre = takeWhile (\<lambda>e. \<not> is_load_checkpoint e) tr"
    "post = tl (dropWhile (\<lambda>e. \<not> is_load_checkpoint e) tr)"
    using only_occurrence [of tr pre LoadCheckpoint post is_load_checkpoint] by simp_all
  from ok show "list_ex is_get_trainer pre" "\<not> list_ex is_train pre"
    unfolding pp load_ok_def by simp_all
  from ok show "LoadCheckpoint \<notin> set post"
    unfolding pp(2) load_ok_def by (simp add: list_ex_load_checkpoint)
  show "LoadCheckpoint \<notin> set pre"
    unfolding pp(1) using set_takeWhileD [of LoadCheckpoint "\<lambda>e. \<not> is_load_checkpoint e" tr]
    by auto
qed


lemma demo_run_resume:
  "main (demo_args\<lparr>resume := True\<rparr>) (demo_world demo_config (0, 1) None) =
     ([InitWorkers None, LoadConfig ''configs/hello.yaml'',
       ConfigLogging False None True,
       LoggingInfo (Initialized 0 1 ''node0''), TryBarrier,
       LoggingInfo (Configuration demo_config),
       GetDataLoaders False [(''batch_size'', YInt 32)],
       GetTrainer (YStr ''basic'') False [] 0 None,
       TrainerBuild demo_config,
       LoadCheckpoint,
       TrainerTrain \<lparr>sampler_len = 64\<rparr> None [(''epochs'', YInt 1)],
       TryBarrier,
       LoggingInfo FinishedTraining,
       LoggingInfo (TrainStats 64 2 32),
       LoggingInfo AllDone], Inr ())"
  by (simp add: run_defs demo_defs)


theorem resume_ordering_witness:
  "args.resume (demo_args\<lparr>resume := True\<rparr>)
   \<and> LoadCheckpoint \<in> set (fst (main (demo_args\<lparr>resume := True\<rparr>)
                                  (demo_world demo_config (0, 1) None)))
   \<and> list_ex is_get_trainer
        [InitWorkers None, LoadConfig ''configs/hello.yaml'', ConfigLogging False None True,
         LoggingInfo (Initialized 0 1 ''node0''), TryBarrier,
         LoggingInfo (Configuration demo_config),
         GetDataLoaders False [(''batch_size'', YInt 32)],
         GetTrainer (YStr ''basic'') False [] 0 None,
         TrainerBuild demo_config :: real event]
   \<and> \<not> args.resume demo_args
   \<and> LoadCheckpoint \<notin> set (fst (main demo_args (demo_world demo_config (0, 1) None)))"
proof -
  let ?pre = "[InitWorkers None, LoadConfig ''configs/hello.yaml'', ConfigLogging False None True,
         LoggingInfo (Initialized 0 1 ''node0''), TryBarrier,
         LoggingInfo (Configuration demo_config),
         GetDataLoaders False [(''batch_size'', YInt 32)],
         GetTrainer (YStr ''basic'') False [] 0 None,
         TrainerBuild demo_config :: real event]"
  let ?post = "[TrainerTrain \<lparr>sampler_len = 64\<rparr> None [(''epochs'', YInt 1)],
       TryBarrier, LoggingInfo FinishedTraining, LoggingInfo (TrainStats 64 2 32),
       LoggingInfo AllDone :: real event]"
  have split: "?pre @ LoadCheckpoint # ?post = ?pre @ LoadCheckpoint # ?post" by (rule refl)
  note r1 = resume_ordering [OF demo_run_resume]
  from r1 have "list_ex is_get_trainer ?pre"
    by (elim conjE allE [of _ ?pre] allE [of _ ?post]) simp
  moreover from r1 have "LoadCheckpoint \<in> set (fst (main (demo_args\<lparr>resume := True\<rparr>)
                                  (demo_world demo_config (0, 1) None)))"
    by (simp add: demo_run_resume)
  moreover have nr: "\<not> args.resume demo_args" "args.resume (demo_args\<lparr>resume := True\<rparr>)"
    by (simp_all add: demo_args_def)
  moreover from resume_ordering [OF demo_run] nr
  have "LoadCheckpoint \<notin> set (fst (main demo_args (demo_world demo_config (0, 1) None)))"
    by (simp add: demo_run)
  ultimately show ?thesis by simp
qed


section \<open>The final report\<close>

lemma demo_run_valid:
  "main demo_args (demo_world demo_config (0, 1) (Some \<lparr>sampler_len = 16\<rparr>)) =
     ([InitWorkers None, LoadConfig ''configs/hello.yaml'',
       ConfigLogging False None False,
       LoggingInfo (Initialized 0 1 ''node0''), TryBarrier,
       LoggingInfo (Configuration demo_config),
       GetDataLoaders False [(''batch_size'', YInt 32)],
       GetTrainer (YStr ''basic'') False [] 0 None,
       TrainerBuild demo_config,
       TrainerTrain \<lparr>sampler_len = 64\<rparr> (Some \<lparr>sampler_len = 16\<rparr>) [(''epochs'', YInt 1)],
       TryBarrier,
       LoggingInfo FinishedTraining,
       LoggingInfo (TrainStats 64 2 32),
       LoggingInfo (ValidStats 16 1 16),
       LoggingInfo AllDone], Inr ())"
  by (simp add: run_defs demo_defs)

text \<open>
  Claim C8. A run that returns has logged exactly one line of training statistics: the
  sample count of the training loader that this worker's \<open>get_data_loaders\<close> call returned,
  the mean of the \<open>train_time\<close> samples of the summary that its \<open>train\<close> call returned, and
  the quotient of the two. It has logged the line of validation statistics (sample count,
  mean of \<open>valid_time\<close>, quotient) if a validation loader was returned, and no such line
  otherwise. The mean and the division are those of the floating-point library, which the
  model takes as given (\<open>np_mean\<close>, \<open>truediv\<close>).
\<close>

theorem final_report:
  assumes "main a w = (tr, Inr ())"
  shows "\<exists>dkw tl vl nm devs rank od t tkw s ts.
           GetDataLoaders (args.distributed_backend a \<noteq> None) dkw \<in> set tr
         \<and> get_data_loaders w (args.distributed_backend a \<noteq> None) dkw = Inr (tl, vl)
         \<and> get_trainer w nm (args.distributed_backend a \<noteq> None) devs rank od = Inr t
         \<and> TrainerTrain tl vl tkw \<in> set tr
         \<and> trainer_train w t tl vl tkw = Inr s
         \<and> map_of s ''train_time'' = Some ts
         \<and> (case vl of
              None \<Rightarrow>
                filter is_stats tr =
                  [LoggingInfo (TrainStats (sampler_len tl) (np_mean w ts)
                     (truediv w (sampler_len tl) (np_mean w ts)))]
            | Some v \<Rightarrow>
                (\<exists>vs. map_of s ''valid_time'' = Some vs \<and>
                   filter is_stats tr =
                     [LoggingInfo (TrainStats (sampler_len tl) (np_mean w ts)
                        (truediv w (sampler_len tl) (np_mean w ts))),
                      LoggingInfo (ValidStats (sampler_len v) (np_mean w vs)
                        (truediv w (sampler_len v) (np_mean w vs)))]))"
  using assms
  apply (rule main_completed)
  subgoal for rank n_ranks cfg ds od dkw tl vl devs nm t tkw s ts vs
    apply (rule exI [of _ dkw], rule exI [of _ tl], rule exI [of _ vl], rule exI [of _ nm],
        rule exI [of _ devs], rule exI [of _ rank], rule exI [of _ od], rule exI [of _ t],
        rule exI [of _ tkw], rule exI [of _ s], rule exI [of _ ts])
    apply (cases vl)
     apply (simp_all add: filter_map comp_def)
    done
  done


theorem final_report_witness:
  "filter is_stats (fst (main demo_args (demo_world demo_config (0, 1) (Some \<lparr>sampler_len = 16\<rparr>))))
     = [LoggingInfo (TrainStats 64 2 32), LoggingInfo (ValidStats 16 1 16)]
   \<and> filter is_stats (fst (main demo_args (demo_world demo_config (0, 1) None)))
     = [LoggingInfo (TrainStats 64 2 32)]"
proof -
  have "filter is_stats (fst (main demo_args
           (demo_world demo_config (0, 1) (Some \<lparr>sampler_len = 16\<rparr>))))
     = [LoggingInfo (TrainStats 64 2 32), LoggingInfo (ValidStats 16 1 16)]"
    using final_report [OF demo_run_valid] by (simp add: demo_run_valid)
  moreover
  have "filter is_stats (fst (main demo_args (demo_world demo_config (0, 1) None)))
     = [LoggingInfo (TrainStats 64 2 32)]"
    using final_report [OF demo_run] by (simp add: demo_run)
  ultimately show ?thesis by simp
qed

section \<open>The two barriers\<close>

lemma filter_when: "filter P (if c then [e] else []) = (if c \<and> P e then [e] else [])"
  by simp

lemma filter_makedirs: "(\<And>d. \<not> P (MakeDirs d)) \<Longrightarrow> filter P (map MakeDirs ds) = []"
  by (induction ds) auto

lemma main_barrier_count: "length (filter is_barrier (fst (main a w))) \<le> 2"
proof -
  let ?P = "\<lambda>t. length (filter is_barrier t) \<le> 2"
  have "run_sat (main a w) (\<lambda>t _. ?P t) (\<lambda>t _. ?P t)"
    by (simp add: main_def run_sat_simps Let_def filter_when filter_makedirs
        split del: if_split cong: if_cong split: option.split)
  then show ?thesis by (rule run_sat_trace)
qed

text \<open>
  Claim C7. No run calls \<open>try_barrier\<close> more than twice, and a run that returns calls it
  exactly twice: the first call comes after \<open>config_logging\<close> and before any
  \<open>get_data_loaders\<close> or \<open>get_trainer\<close> call (the device plan is computed between those
  two); the second comes after the \<open>train\<close> call and before any line of statistics is
  logged.
\<close>

theorem barrier_twice:
  assumes "main a w = (tr, r)"
  shows "length (filter is_barrier tr) \<le> 2
       \<and> (r = Inr () \<longrightarrow>
            (\<exists>pre mid post. tr = pre @ [TryBarrier] @ mid @ [TryBarrier] @ post
               \<and> \<not> list_ex is_barrier (pre @ mid @ post)
               \<and> list_ex is_config_logging pre \<and> \<not> list_ex constructs pre
               \<and> list_ex is_get_data_loaders mid \<and> list_ex is_get_trainer mid
               \<and> list_ex is_train mid
               \<and> \<not> list_ex is_stats (pre @ mid) \<and> list_ex is_stats post))"
proof (intro conjI impI)
  show "length (filter is_barrier tr) \<le> 2"
    using main_barrier_count [of a w] assms by simp
next
  assume "r = Inr ()"
  with assms have "main a w = (tr, Inr ())" by simp
  then show "\<exists>pre mid post. tr = pre @ [TryBarrier] @ mid @ [TryBarrier] @ post
               \<and> \<not> list_ex is_barrier (pre @ mid @ post)
               \<and> list_ex is_config_logging pre \<and> \<not> list_ex constructs pre
               \<and> list_ex is_get_data_loaders mid \<and> list_ex is_get_trainer mid
               \<and> list_ex is_train mid
               \<and> \<not> list_ex is_stats (pre @ mid) \<and> list_ex is_stats post"
    apply (rule main_completed)
    subgoal for rank n_ranks cfg ds od dkw tl vl devs nm t tkw s ts vs
      apply (rule exI [of _ "[InitWorkers (args.distributed_backend a), LoadConfig (args.config a)]
          @ map MakeDirs ds
          @ [ConfigLogging (args.verbose a)
               (case od of None \<Rightarrow> None
                | Some d \<Rightarrow> Some (path_join d (''out_'' @ format_i rank @ ''.log'')))
               (args.resume a),
             LoggingInfo (Initialized rank n_ranks (gethostname w))]"])
      apply (rule exI [of _ "(if rank = 0 then [LoggingInfo (Configuration cfg)] else [])
          @ [GetDataLoaders (args.distributed_backend a \<noteq> None) dkw]
          @ (if 0 < length devs then [LoggingInfo (UsingGPUs devs)] else [])
          @ [GetTrainer nm (args.distributed_backend a \<noteq> None) devs rank od,
             TrainerBuild cfg]
          @ (if args.resume a then [LoadCheckpoint] else [])
          @ [TrainerTrain tl vl tkw]"])
      apply (rule exI [of _ "[LoggingInfo FinishedTraining,
             LoggingInfo (TrainStats (sampler_len tl) (np_mean w ts)
               (truediv w (sampler_len tl) (np_mean w ts)))]
          @ (case vl of
               None \<Rightarrow> []
             | Some v \<Rightarrow> [LoggingInfo (ValidStats (sampler_len v) (np_mean w vs)
                             (truediv w (sampler_len v) (np_mean w vs)))])
          @ [LoggingInfo AllDone]"])
      apply (simp add: list_ex_trace constructs_def split del: if_split cong: if_cong)
      done
    done
qed


theorem barrier_twice_witness:
  "length (filter is_barrier (fst (main demo_args (demo_world demo_config (0, 1) None)))) = 2
   \<and> (\<exists>pre mid post.
        fst (main demo_args (demo_world demo_config (0, 1) None))
          = pre @ [TryBarrier] @ mid @ [TryBarrier] @ post
        \<and> \<not> list_ex is_barrier (pre @ mid @ post)
        \<and> list_ex is_config_logging pre \<and> \<not> list_ex constructs pre
        \<and> list_ex is_get_data_loaders mid \<and> list_ex is_get_trainer mid
        \<and> list_ex is_train mid
        \<and> \<not> list_ex is_stats (pre @ mid) \<and> list_ex is_stats post)"
proof -
  have "length (filter is_barrier (fst (main demo_args (demo_world demo_config (0, 1) None)))) = 2"
    by (simp add: demo_run)
  with barrier_twice [OF demo_run] show ?thesis
    by (simp only: demo_run fst_conv simp_thms)
qed

section \<open>Missing configuration keys\<close>

lemma main_needs_keys:
  assumes "load_yaml w (args.config a) = Inr cfg"
    and "map_of cfg ''data'' = None \<or> map_of cfg ''trainer'' = None \<or> map_of cfg ''train'' = None"
  shows "\<exists>e. snd (main a w) = Inl e"
proof (cases "snd (main a w)")
  case (Inl e)
  then show ?thesis by blast
next
  case (Inr u)
  then have "snd (main a w) = Inr ()" by simp
  then have "main a w = (fst (main a w), Inr ())" by (rule main_returns)
  with assms have False
    by - (erule main_completed, auto)
  then show ?thesis ..
qed

lemma main_without_data:
  assumes "load_yaml w (args.config a) = Inr cfg" and "map_of cfg ''data'' = None"
  shows "\<not> list_ex constructs (fst (main a w))"
proof -
  let ?P = "\<lambda>t. \<not> list_ex constructs t"
  have "run_sat (main a w) (\<lambda>t _. ?P t) (\<lambda>t _. ?P t)"
    using assms
    by (simp add: main_def run_sat_simps Let_def list_ex_trace constructs_def getitem_Inr
        split del: if_split cong: if_cong)
  then show ?thesis by (rule run_sat_trace)
qed

lemma main_without_trainer:
  assumes "load_yaml w (args.config a) = Inr cfg" and "map_of cfg ''trainer'' = None"
  shows "\<not> list_ex is_get_trainer (fst (main a w))"
proof -
  let ?P = "\<lambda>t. \<not> list_ex is_get_trainer t"
  have "run_sat (main a w) (\<lambda>t _. ?P t) (\<lambda>t _. ?P t)"
    using assms
    by (simp add: main_def run_sat_simps Let_def list_ex_trace getitem_Inr
        split del: if_split cong: if_cong)
  then show ?thesis by (rule run_sat_trace)
qed

lemma main_without_train:
  assumes "load_yaml w (args.config a) = Inr cfg" and "map_of cfg ''train'' = None"
  shows "\<not> list_ex is_train (fst (main a w))"
proof -
  let ?P = "\<lambda>t. \<not> list_ex is_train t"
  have "run_sat (main a w) (\<lambda>t _. ?P t) (\<lambda>t _. ?P t)"
    using assms
    by (simp add: main_def run_sat_simps Let_def list_ex_trace getitem_Inr
        split del: if_split cong: if_cong)
  then show ?thesis by (rule run_sat_trace)
qed

lemma run_sat_both:
  assumes "run_sat m (\<lambda>t x. P t (Inr x)) (\<lambda>t e. P t (Inl e))"
  shows "P (fst m) (snd m)"
  using assms by (cases m) (auto simp: run_sat_def split: sum.splits)

lemma getitem_Inl: "getitem d k = Inl e \<longleftrightarrow> map_of d k = None \<and> e = KeyError k"
  by (auto simp: getitem_def split: option.splits)

lemma main_data_error:
  assumes "load_yaml w (args.config a) = Inr cfg" and "map_of cfg ''data'' = None"
    and "list_ex is_barrier (fst (main a w))" and "try_barrier w 0 = Inr ()"
  shows "snd (main a w) = Inl (KeyError ''data'')"
proof -
  let ?P = "\<lambda>t r. list_ex is_barrier t \<longrightarrow> r = Inl (KeyError ''data'')"
  have "run_sat (main a w) (\<lambda>t x. ?P t (Inr x)) (\<lambda>t e. ?P t (Inl e))"
    using assms(1,2,4)
    by (simp add: main_def run_sat_simps Let_def list_ex_trace getitem_Inr getitem_Inl
        split del: if_split cong: if_cong)
  then have "?P (fst (main a w)) (snd (main a w))" by (rule run_sat_both)
  with assms(3) show ?thesis by simp
qed

lemma main_trainer_error:
  assumes "load_yaml w (args.config a) = Inr cfg" and "map_of cfg ''trainer'' = None"
    and "list_ex (\<lambda>e. case e of
            GetDataLoaders d kw \<Rightarrow> (\<exists>x. get_data_loaders w d kw = Inr x)
          | _ \<Rightarrow> False) (fst (main a w))"
    and "\<forall>rank n_ranks. init_workers w (args.distributed_backend a) = Inr (rank, n_ranks)
           \<longrightarrow> (\<exists>g. choose_gpus a rank n_ranks = Inr g)"
  shows "snd (main a w) = Inl (KeyError ''trainer'')"
proof -
  let ?R = "\<lambda>e. case e of
            GetDataLoaders d kw \<Rightarrow> (\<exists>x. get_data_loaders w d kw = Inr x)
          | _ \<Rightarrow> False"
  let ?P = "\<lambda>t r. list_ex ?R t \<longrightarrow> r = Inl (KeyError ''trainer'')"
  have "run_sat (main a w) (\<lambda>t x. ?P t (Inr x)) (\<lambda>t e. ?P t (Inl e))"
    using assms(1,2,4)
    apply (simp add: main_def run_sat_simps Let_def list_ex_trace getitem_Inr getitem_Inl
        split del: if_split cong: if_cong)
    apply (metis Inl_Inr_False)
    done
  then have "?P (fst (main a w)) (snd (main a w))" by (rule run_sat_both)
  with assms(3) show ?thesis by simp
qed

lemma main_train_error:
  assumes "load_yaml w (args.config a) = Inr cfg" and "map_of cfg ''train'' = None"
    and "list_ex (\<lambda>e. case e of
            GetTrainer nm d devs rk od \<Rightarrow>
              (\<exists>t. get_trainer w nm d devs rk od = Inr t \<and> trainer_build w t cfg = Inr ()
                    \<and> (args.resume a \<longrightarrow> trainer_load_checkpoint w t = Inr ()))
          | _ \<Rightarrow> False) (fst (main a w))"
  shows "snd (main a w) = Inl (KeyError ''train'')"
proof -
  let ?R = "\<lambda>e. case e of
            GetTrainer nm d devs rk od \<Rightarrow>
              (\<exists>t. get_trainer w nm d devs rk od = Inr t \<and> trainer_build w t cfg = Inr ()
                    \<and> (args.resume a \<longrightarrow> trainer_load_checkpoint w t = Inr ()))
          | _ \<Rightarrow> False"
  let ?P = "\<lambda>t r. list_ex ?R t \<longrightarrow> r = Inl (KeyError ''train'')"
  have "run_sat (main a w) (\<lambda>t x. ?P t (Inr x)) (\<lambda>t e. ?P t (Inl e))"
    using assms(1,2)
    by (simp add: main_def run_sat_simps Let_def list_ex_trace getitem_Inr getitem_Inl
        split del: if_split cong: if_cong)
  then have "?P (fst (main a w)) (snd (main a w))" by (rule run_sat_both)
  with assms(3) show ?thesis by simp
qed


lemma main_trainer_after_loaders:
  "list_ex is_get_trainer (fst (main a w)) \<longrightarrow> list_ex is_get_data_loaders (fst (main a w))"
proof -
  let ?P = "\<lambda>t. list_ex is_get_trainer t \<longrightarrow> list_ex is_get_data_loaders t"
  have "run_sat (main a w) (\<lambda>t _. ?P t) (\<lambda>t _. ?P t)"
    by (simp add: main_def run_sat_simps Let_def list_ex_trace
        split del: if_split cong: if_cong)
  then show ?thesis by (rule run_sat_trace)
qed

text \<open>
  Claim C3, as the code has it. The keys are looked up where they are used, so a run whose
  configuration lacks one ends in an exception at a point that depends on the key.
  Without \<open>data\<close>: no data loader and no trainer is constructed, and the exception is
  \<open>KeyError data\<close> if the first barrier call was made and returned. Without \<open>trainer\<close>:
  no trainer is constructed, and the exception is \<open>KeyError trainer\<close> if a
  \<open>get_data_loaders\<close> call was made and returned and the choice of GPUs does not raise.
  Without \<open>train\<close>: \<open>train\<close> is not called, and if a \<open>get_trainer\<close> call was made and
  returned a trainer whose \<open>build\<close> (and \<open>load_checkpoint\<close>, when resuming) returns, then
  the exception is \<open>KeyError train\<close> and \<open>get_data_loaders\<close> has been called.
\<close>

theorem missing_key_raises:
  assumes "load_yaml w (args.config a) = Inr cfg"
  shows
    "(map_of cfg ''data'' = None \<longrightarrow>
        (\<exists>e. snd (main a w) = Inl e)
        \<and> \<not> list_ex constructs (fst (main a w))
        \<and> (TryBarrier \<in> set (fst (main a w)) \<and> try_barrier w 0 = Inr ()
             \<longrightarrow> snd (main a w) = Inl (KeyError ''data'')))
   \<and> (map_of cfg ''trainer'' = None \<longrightarrow>
        (\<exists>e. snd (main a w) = Inl e)
        \<and> \<not> list_ex is_get_trainer (fst (main a w))
        \<and> ((\<exists>d kw x. GetDataLoaders d kw \<in> set (fst (main a w))
                      \<and> get_data_loaders w d kw = Inr x)
            \<and> (\<forall>rank n_ranks.
                  init_workers w (args.distributed_backend a) = Inr (rank, n_ranks)
                  \<longrightarrow> (\<exists>g. choose_gpus a rank n_ranks = Inr g))
             \<longrightarrow> snd (main a w) = Inl (KeyError ''trainer'')))
   \<and> (map_of cfg ''train'' = None \<longrightarrow>
        (\<exists>e. snd (main a w) = Inl e)
        \<and> \<not> list_ex is_train (fst (main a w))
        \<and> ((\<exists>nm d devs rk od t. GetTrainer nm d devs rk od \<in> set (fst (main a w))
                      \<and> get_trainer w nm d devs rk od = Inr t
                      \<and> trainer_build w t cfg = Inr ()
                      \<and> (args.resume a \<longrightarrow> trainer_load_checkpoint w t = Inr ()))
             \<longrightarrow> snd (main a w) = Inl (KeyError ''train'')
                 \<and> list_ex is_get_data_loaders (fst (main a w))))"
proof (intro conjI impI)
  assume k: "map_of cfg ''data'' = None"
  show "\<exists>e. snd (main a w) = Inl e"
    using main_needs_keys [OF assms] k by blast
  show "\<not> list_ex constructs (fst (main a w))"
    using main_without_data [OF assms k] .
  assume "TryBarrier \<in> set (fst (main a w)) \<and> try_barrier w 0 = Inr ()"
  then have "list_ex is_barrier (fst (main a w))" "try_barrier w 0 = Inr ()"
    by (auto simp: list_ex_iff intro: bexI [of _ TryBarrier])
  then show "snd (main a w) = Inl (KeyError ''data'')"
    by (rule main_data_error [OF assms k])
next
  assume k: "map_of cfg ''trainer'' = None"
  show "\<exists>e. snd (main a w) = Inl e"
    using main_needs_keys [OF assms] k by blast
  show "\<not> list_ex is_get_trainer (fst (main a w))"
    using main_without_trainer [OF assms k] .
  assume h: "(\<exists>d kw x. GetDataLoaders d kw \<in> set (fst (main a w))
                      \<and> get_data_loaders w d kw = Inr x)
            \<and> (\<forall>rank n_ranks.
                  init_workers w (args.distributed_backend a) = Inr (rank, n_ranks)
                  \<longrightarrow> (\<exists>g. choose_gpus a rank n_ranks = Inr g))"
  then have "list_ex (\<lambda>e. case e of
            GetDataLoaders d kw \<Rightarrow> (\<exists>x. get_data_loaders w d kw = Inr x)
          | _ \<Rightarrow> False) (fst (main a w))"
    by (force simp: list_ex_iff)
  with h show "snd (main a w) = Inl (KeyError ''trainer'')"
    using main_trainer_error [OF assms k] by blast
next
  assume k: "map_of cfg ''train'' = None"
  show "\<exists>e. snd (main a w) = Inl e"
    using main_needs_keys [OF assms] k by blast
  show "\<not> list_ex is_train (fst (main a w))"
    using main_without_train [OF assms k] .
  assume h: "\<exists>nm d devs rk od t. GetTrainer nm d devs rk od \<in> set (fst (main a w))
                      \<and> get_trainer w nm d devs rk od = Inr t
                      \<and> trainer_build w t cfg = Inr ()
                      \<and> (args.resume a \<longrightarrow> trainer_load_checkpoint w t = Inr ())"
  then have "list_ex (\<lambda>e. case e of
            GetTrainer nm d devs rk od \<Rightarrow>
              (\<exists>t. get_trainer w nm d devs rk od = Inr t \<and> trainer_build w t cfg = Inr ()
                    \<and> (args.resume a \<longrightarrow> trainer_load_checkpoint w t = Inr ()))
          | _ \<Rightarrow> False) (fst (main a w))"
    by (force simp: list_ex_iff)
  then show "snd (main a w) = Inl (KeyError ''train'')"
    by (rule main_train_error [OF assms k])
  from h have "list_ex is_get_trainer (fst (main a w))"
    by (force simp: list_ex_iff)
  then show "list_ex is_get_data_loaders (fst (main a w))"
    using main_trainer_after_loaders [of a w] by simp
qed

theorem missing_key_raises_witness:
  "snd (main demo_args (demo_world (config_without ''data'') (0, 1) None))
     = Inl (KeyError ''data'')
   \<and> \<not> list_ex constructs (fst (main demo_args (demo_world (config_without ''data'') (0, 1) None)))
   \<and> snd (main demo_args (demo_world (config_without ''trainer'') (0, 1) None))
     = Inl (KeyError ''trainer'')
   \<and> \<not> list_ex is_get_trainer
         (fst (main demo_args (demo_world (config_without ''trainer'') (0, 1) None)))
   \<and> snd (main demo_args (demo_world (config_without ''train'') (0, 1) None))
     = Inl (KeyError ''train'')
   \<and> \<not> list_ex is_train
         (fst (main demo_args (demo_world (config_without ''train'') (0, 1) None)))
   \<and> list_ex is_get_data_loaders
         (fst (main demo_args (demo_world (config_without ''train'') (0, 1) None)))"
proof -
  let ?w = "\<lambda>k. demo_world (config_without k) (0, 1) None :: (unit, real) world"
  have l: "load_yaml (?w k) (args.config demo_args) = Inr (config_without k)" for k
    by (simp add: demo_world_def)
  have k: "map_of (config_without ''data'') ''data'' = None"
    "map_of (config_without ''trainer'') ''trainer'' = None"
    "map_of (config_without ''train'') ''train'' = None"
    by (simp_all add: config_without_def demo_config_def)
  have b: "TryBarrier \<in> set (fst (main demo_args (?w ''data'')))
           \<and> try_barrier (?w ''data'') 0 = Inr ()"
    by (simp add: run_defs demo_defs config_without_def)
  have g1: "GetDataLoaders False [(''batch_size'', YInt 32)]
             \<in> set (fst (main demo_args (?w ''trainer'')))"
    by (simp add: run_defs demo_defs config_without_def)
  have g2: "get_data_loaders (?w ''trainer'') False [(''batch_size'', YInt 32)]
             = Inr (\<lparr>sampler_len = 64\<rparr>, None)"
    by (simp add: demo_world_def)
  have g3: "\<forall>rank n_ranks.
       init_workers (?w ''trainer'') (args.distributed_backend demo_args) = Inr (rank, n_ranks)
       \<longrightarrow> (\<exists>g. choose_gpus demo_args rank n_ranks = Inr g)"
    by (simp add: demo_defs)
  have t1: "GetTrainer (YStr ''basic'') False [] 0 None
             \<in> set (fst (main demo_args (?w ''train'')))"
    by (simp add: run_defs demo_defs config_without_def)
  have t2: "get_trainer (?w ''train'') (YStr ''basic'') False [] 0 None = Inr ()
            \<and> trainer_build (?w ''train'') () (config_without ''train'') = Inr ()
            \<and> (args.resume demo_args \<longrightarrow> trainer_load_checkpoint (?w ''train'') () = Inr ())"
    by (simp add: demo_world_def)
  from missing_key_raises [OF l [of "''data''"]] k(1) b
  have d: "snd (main demo_args (?w ''data'')) = Inl (KeyError ''data'')"
    "\<not> list_ex constructs (fst (main demo_args (?w ''data'')))"
    by blast+
  from missing_key_raises [OF l [of "''trainer''"]] k(2) g1 g2 g3
  have t: "snd (main demo_args (?w ''trainer'')) = Inl (KeyError ''trainer'')"
    "\<not> list_ex is_get_trainer (fst (main demo_args (?w ''trainer'')))"
    by blast+
  from missing_key_raises [OF l [of "''train''"]] k(3) t1 t2
  have r: "snd (main demo_args (?w ''train'')) = Inl (KeyError ''train'')"
    "\<not> list_ex is_train (fst (main demo_args (?w ''train'')))"
    "list_ex is_get_data_loaders (fst (main demo_args (?w ''train'')))"
    by blast+
  from d t r show ?thesis by simp
qed


text \<open>
  The claim as the specification states it fails: without \<open>trainer\<close> the data loaders have
  been constructed when the \<open>KeyError\<close> is raised, and without \<open>train\<close> the trainer has
  been constructed too.
\<close>

theorem config_completeness_counterexample:
  "map_of (config_without ''trainer'') ''trainer'' = None
   \<and> main demo_args (demo_world (config_without ''trainer'') (0, 1) None) =
     ([InitWorkers None, LoadConfig ''configs/hello.yaml'',
       ConfigLogging False None False,
       LoggingInfo (Initialized 0 1 ''node0''), TryBarrier,
       LoggingInfo (Configuration (config_without ''trainer'')),
       GetDataLoaders False [(''batch_size'', YInt 32)]],
      Inl (KeyError ''trainer''))
   \<and> list_ex constructs
         (fst (main demo_args (demo_world (config_without ''trainer'') (0, 1) None)))
   \<and> map_of (config_without ''train'') ''train'' = None
   \<and> main demo_args (demo_world (config_without ''train'') (0, 1) None) =
     ([InitWorkers None, LoadConfig ''configs/hello.yaml'',
       ConfigLogging False None False,
       LoggingInfo (Initialized 0 1 ''node0''), TryBarrier,
       LoggingInfo (Configuration (config_without ''train'')),
       GetDataLoaders False [(''batch_size'', YInt 32)],
       GetTrainer (YStr ''basic'') False [] 0 None,
       TrainerBuild (config_without ''train'')],
      Inl (KeyError ''train''))
   \<and> list_ex constructs
         (fst (main demo_args (demo_world (config_without ''train'') (0, 1) None)))"
  by (simp add: run_defs demo_defs config_without_def constructs_def)

end
